theory Spec2Isabelle
  imports Complex_Main
begin

section \<open>Data model of the meme editor\<close>

text \<open>
  The editor keeps its state in a reducer (\<^verbatim>\<open>hooks/useMemeEditor.js\<close>). A JavaScript
  number is modelled as \<^typ>\<open>int\<close> where the code uses it as an identifier or an
  index, and as \<^typ>\<open>real\<close> where it is a coordinate or a style value; \<^verbatim>\<open>NaN\<close>,
  infinities and the rounding of doubles are outside the model. \<^verbatim>\<open>null\<close> is
  \<^term>\<open>None\<close>.

  Field names follow the source; \<^verbatim>\<open>id\<close>, \<^verbatim>\<open>text\<close>, \<^verbatim>\<open>x\<close> and \<^verbatim>\<open>y\<close> carry the
  prefix \<^verbatim>\<open>layer_\<close> because the plain names are taken in Isabelle.
\<close>

record layer =
  layer_id :: int
  layer_text :: string
  layer_x :: real
  layer_y :: real
  fontSize :: real
  fontFamily :: string
  color :: string
  strokeColor :: string
  strokeWidth :: real
  textAlign :: string
  rotation :: real
  width :: real
  height :: real

text \<open>
  An element of the \<^verbatim>\<open>textLayers\<close> array is a layer object or the value
  \<^verbatim>\<open>undefined\<close> (\<^term>\<open>None\<close>). No caller stores \<^verbatim>\<open>undefined\<close> on purpose, but the
  element swap of \<^verbatim>\<open>MOVE_LAYER_UP\<close> can, and reading a property of \<^verbatim>\<open>undefined\<close>
  throws a \<^verbatim>\<open>TypeError\<close>.
\<close>

type_synonym slot = "layer option"

datatype js_error = TypeError

record state =
  baseImage :: "string option"
  textLayers :: "slot list"
  selectedLayerId :: "int option"
  nextLayerId :: int

definition initialState :: state where
  "initialState =
     \<lparr>baseImage = None, textLayers = [], selectedLayerId = None, nextLayerId = 1\<rparr>"

text \<open>
  The \<^verbatim>\<open>updates\<close> object of \<^verbatim>\<open>UPDATE_TEXT_LAYER\<close>: each key of a layer is present
  (\<^term>\<open>Some v\<close>) or absent. The reducer spreads the object as it is, so the keys
  \<^verbatim>\<open>id\<close>, \<^verbatim>\<open>width\<close> and \<^verbatim>\<open>height\<close> are not excluded.
\<close>

record patch =
  upd_id :: "int option"
  upd_text :: "string option"
  upd_x :: "real option"
  upd_y :: "real option"
  upd_fontSize :: "real option"
  upd_fontFamily :: "string option"
  upd_color :: "string option"
  upd_strokeColor :: "string option"
  upd_strokeWidth :: "real option"
  upd_textAlign :: "string option"
  upd_rotation :: "real option"
  upd_width :: "real option"
  upd_height :: "real option"

definition no_updates :: patch where
  "no_updates =
     \<lparr>upd_id = None, upd_text = None, upd_x = None, upd_y = None, upd_fontSize = None,
      upd_fontFamily = None, upd_color = None, upd_strokeColor = None,
      upd_strokeWidth = None, upd_textAlign = None, upd_rotation = None,
      upd_width = None, upd_height = None\<rparr>"

text \<open>
  An action: its \<^verbatim>\<open>type\<close> tag with the payload that the dispatch wrapper of that tag
  builds. \<open>OTHER t\<close> stands for an action whose tag \<open>t\<close> is none of the eight of
  \<^verbatim>\<open>ACTION_TYPES\<close>.
\<close>

datatype action =
    SET_BASE_IMAGE string
  | ADD_TEXT_LAYER
  | UPDATE_TEXT_LAYER int patch
  | DELETE_TEXT_LAYER int
  | SELECT_LAYER "int option"
  | MOVE_LAYER_UP int
  | MOVE_LAYER_DOWN int
  | RESET
  | OTHER string

section \<open>Array operations used by the reducer\<close>

text \<open>
  Every element of the array is a layer object. This is the typing of \<^verbatim>\<open>textLayers\<close>
  that the components document (\<^verbatim>\<open>Array of text layer objects\<close>); the statements
  about layers below are made for such arrays. \<open>layer_ids\<close> lists the ids in array
  order.
\<close>

definition no_holes :: "slot list \<Rightarrow> bool" where
  "no_holes ls = list_all (\<lambda>e. e \<noteq> None) ls"

definition layer_ids :: "slot list \<Rightarrow> int list" where
  "layer_ids ls = map (\<lambda>e. layer_id (the e)) (filter (\<lambda>e. e \<noteq> None) ls)"

text \<open>\<^verbatim>\<open>{ ...layer, ...action.payload.updates }\<close>: a key present in the updates wins.\<close>

definition merge_updates :: "layer \<Rightarrow> patch \<Rightarrow> layer" where
  "merge_updates l p =
     \<lparr>layer_id = (case upd_id p of None \<Rightarrow> layer_id l | Some v \<Rightarrow> v),
      layer_text = (case upd_text p of None \<Rightarrow> layer_text l | Some v \<Rightarrow> v),
      layer_x = (case upd_x p of None \<Rightarrow> layer_x l | Some v \<Rightarrow> v),
      layer_y = (case upd_y p of None \<Rightarrow> layer_y l | Some v \<Rightarrow> v),
      fontSize = (case upd_fontSize p of None \<Rightarrow> fontSize l | Some v \<Rightarrow> v),
      fontFamily = (case upd_fontFamily p of None \<Rightarrow> fontFamily l | Some v \<Rightarrow> v),
      color = (case upd_color p of None \<Rightarrow> color l | Some v \<Rightarrow> v),
      strokeColor = (case upd_strokeColor p of None \<Rightarrow> strokeColor l | Some v \<Rightarrow> v),
      strokeWidth = (case upd_strokeWidth p of None \<Rightarrow> strokeWidth l | Some v \<Rightarrow> v),
      textAlign = (case upd_textAlign p of None \<Rightarrow> textAlign l | Some v \<Rightarrow> v),
      rotation = (case upd_rotation p of None \<Rightarrow> rotation l | Some v \<Rightarrow> v),
      width = (case upd_width p of None \<Rightarrow> width l | Some v \<Rightarrow> v),
      height = (case upd_height p of None \<Rightarrow> height l | Some v \<Rightarrow> v)\<rparr>"

text \<open>
  \<^verbatim>\<open>textLayers.map(layer => layer.id === id ? {...layer, ...updates} : layer)\<close>.
  The callback reads \<^verbatim>\<open>layer.id\<close> of every element, in order.
\<close>

fun map_update :: "int \<Rightarrow> patch \<Rightarrow> slot list \<Rightarrow> js_error + slot list" where
  "map_update i p [] = Inr []"
| "map_update i p (None # rest) = Inl TypeError"
| "map_update i p (Some l # rest) =
     (case map_update i p rest of
        Inl e \<Rightarrow> Inl e
      | Inr rest' \<Rightarrow> Inr (Some (if layer_id l = i then merge_updates l p else l) # rest'))"

text \<open>\<^verbatim>\<open>textLayers.filter(layer => layer.id !== id)\<close>.\<close>

fun filter_out :: "int \<Rightarrow> slot list \<Rightarrow> js_error + slot list" where
  "filter_out i [] = Inr []"
| "filter_out i (None # rest) = Inl TypeError"
| "filter_out i (Some l # rest) =
     (case filter_out i rest of
        Inl e \<Rightarrow> Inl e
      | Inr rest' \<Rightarrow> Inr (if layer_id l \<noteq> i then Some l # rest' else rest'))"

text \<open>
  \<^verbatim>\<open>textLayers.findIndex(l => l.id === id)\<close>, scanning from index \<open>k\<close>: the index of
  the first match, \<open>-1\<close> when there is none, a \<^verbatim>\<open>TypeError\<close> when an \<^verbatim>\<open>undefined\<close>
  element comes before the first match.
\<close>

fun findIndex_from :: "int \<Rightarrow> int \<Rightarrow> slot list \<Rightarrow> js_error + int" where
  "findIndex_from k i [] = Inr (- 1)"
| "findIndex_from k i (None # rest) = Inl TypeError"
| "findIndex_from k i (Some l # rest) =
     (if layer_id l = i then Inr k else findIndex_from (k + 1) i rest)"

definition findIndex :: "int \<Rightarrow> slot list \<Rightarrow> js_error + int" where
  "findIndex i ls = findIndex_from 0 i ls"

text \<open>
  Reading \<^verbatim>\<open>arr[k]\<close>: \<^verbatim>\<open>undefined\<close> outside the array. Writing \<^verbatim>\<open>arr[k] = v\<close>: inside
  the array the element is replaced; at a negative \<open>k\<close> the write creates the property
  \<^verbatim>\<open>"-1"\<close> of the array object and no element changes (the property is not copied by
  \<^verbatim>\<open>[...arr]\<close>, \<^verbatim>\<open>map\<close> or \<^verbatim>\<open>filter\<close> and nothing in the program reads it back, so
  it is left out of the model); beyond the end the array grows, the gap reading as
  \<^verbatim>\<open>undefined\<close> (the reducer never writes there).
\<close>

definition js_get :: "slot list \<Rightarrow> int \<Rightarrow> slot" where
  "js_get arr k = (if 0 \<le> k \<and> k < int (length arr) then arr ! nat k else None)"

definition js_set :: "slot list \<Rightarrow> int \<Rightarrow> slot \<Rightarrow> slot list" where
  "js_set arr k v =
     (if k < 0 then arr
      else if k < int (length arr) then arr[nat k := v]
      else arr @ replicate (nat k - length arr) None @ [v])"

text \<open>
  \<^verbatim>\<open>[arr[a], arr[b]] = [arr[b], arr[a]]\<close>: both reads happen first, then the write to
  \<^verbatim>\<open>arr[a]\<close>, then the write to \<^verbatim>\<open>arr[b]\<close>.
\<close>

definition swap_elems :: "slot list \<Rightarrow> int \<Rightarrow> int \<Rightarrow> slot list" where
  "swap_elems arr a b =
     (let vb = js_get arr b; va = js_get arr a
      in js_set (js_set arr a vb) b va)"

text \<open>\<^verbatim>\<open>remainingLayers[0]?.id || null\<close>: a falsy id (\<open>0\<close>) also gives \<^verbatim>\<open>null\<close>.\<close>

definition first_id_or_null :: "slot list \<Rightarrow> int option" where
  "first_id_or_null ls =
     (case js_get ls 0 of
        None \<Rightarrow> None
      | Some l \<Rightarrow> (if layer_id l = 0 then None else Some (layer_id l)))"

section \<open>The reducer\<close>

definition newLayer :: "state \<Rightarrow> layer" where
  "newLayer s =
     \<lparr>layer_id = nextLayerId s,
      layer_text = ''Double click to edit'',
      layer_x = 50,
      layer_y = 50,
      fontSize = 48,
      fontFamily = ''Impact, Arial Black, sans-serif'',
      color = ''#FFFFFF'',
      strokeColor = ''#000000'',
      strokeWidth = 2,
      textAlign = ''center'',
      rotation = 0,
      width = 300,
      height = 60\<rparr>"

fun memeEditorReducer :: "state \<Rightarrow> action \<Rightarrow> js_error + state" where
  "memeEditorReducer s (SET_BASE_IMAGE u) =
     Inr (s\<lparr>baseImage := Some u, textLayers := [], selectedLayerId := None\<rparr>)"
| "memeEditorReducer s ADD_TEXT_LAYER =
     Inr (s\<lparr>textLayers := textLayers s @ [Some (newLayer s)],
            selectedLayerId := Some (layer_id (newLayer s)),
            nextLayerId := nextLayerId s + 1\<rparr>)"
| "memeEditorReducer s (UPDATE_TEXT_LAYER i p) =
     (case map_update i p (textLayers s) of
        Inl e \<Rightarrow> Inl e
      | Inr ls \<Rightarrow> Inr (s\<lparr>textLayers := ls\<rparr>))"
| "memeEditorReducer s (DELETE_TEXT_LAYER i) =
     (case filter_out i (textLayers s) of
        Inl e \<Rightarrow> Inl e
      | Inr remainingLayers \<Rightarrow>
          Inr (s\<lparr>textLayers := remainingLayers,
                 selectedLayerId :=
                   (if selectedLayerId s = Some i then first_id_or_null remainingLayers
                    else selectedLayerId s)\<rparr>))"
| "memeEditorReducer s (SELECT_LAYER sel) = Inr (s\<lparr>selectedLayerId := sel\<rparr>)"
| "memeEditorReducer s (MOVE_LAYER_UP i) =
     (case findIndex i (textLayers s) of
        Inl e \<Rightarrow> Inl e
      | Inr upIndex \<Rightarrow>
          (if upIndex < int (length (textLayers s)) - 1
           then Inr (s\<lparr>textLayers := swap_elems (textLayers s) upIndex (upIndex + 1)\<rparr>)
           else Inr s))"
| "memeEditorReducer s (MOVE_LAYER_DOWN i) =
     (case findIndex i (textLayers s) of
        Inl e \<Rightarrow> Inl e
      | Inr downIndex \<Rightarrow>
          (if downIndex > 0
           then Inr (s\<lparr>textLayers := swap_elems (textLayers s) downIndex (downIndex - 1)\<rparr>)
           else Inr s))"
| "memeEditorReducer s RESET = Inr initialState"
| "memeEditorReducer s (OTHER t) = Inr s"

text \<open>Dispatching a list of actions in order; a throw ends the run.\<close>

fun dispatch_all :: "state \<Rightarrow> action list \<Rightarrow> js_error + state" where
  "dispatch_all s [] = Inr s"
| "dispatch_all s (a # as) =
     (case memeEditorReducer s a of Inl e \<Rightarrow> Inl e | Inr s' \<Rightarrow> dispatch_all s' as)"

section \<open>Pointer press on the canvas\<close>

text \<open>
  \<^verbatim>\<open>handleMouseDown\<close> of \<^verbatim>\<open>components/CanvasEditor.js\<close>. The component reads
  \<^verbatim>\<open>textLayers\<close> from the store, calls \<^verbatim>\<open>onSelectLayer\<close> (the \<^verbatim>\<open>SELECT_LAYER\<close> dispatch)
  and keeps the drag in its own state.
\<close>

record canvas_rect =
  rect_left :: real
  rect_top :: real

record mouse_event =
  clientX :: real
  clientY :: real

record drag_state =
  dragging :: "int option"
  dragStart :: "real \<times> real"

text \<open>
  The \<^verbatim>\<open>for (let i = textLayers.length - 1; i >= 0; i--)\<close> loop with its \<^verbatim>\<open>break\<close>;
  the last argument is the loop variable plus one, the number of layers not yet
  examined. The result is the layer hit, if any.
\<close>

fun hit_loop :: "real \<Rightarrow> real \<Rightarrow> slot list \<Rightarrow> nat \<Rightarrow> js_error + layer option" where
  "hit_loop px py ls 0 = Inr None"
| "hit_loop px py ls (Suc i) =
     (case js_get ls (int i) of
        None \<Rightarrow> Inl TypeError
      | Some l \<Rightarrow>
          (if px \<ge> layer_x l \<and> px \<le> layer_x l + width l \<and>
              py \<ge> layer_y l \<and> py \<le> layer_y l + height l
           then Inr (Some l)
           else hit_loop px py ls i))"

definition handleMouseDown ::
    "canvas_rect \<Rightarrow> mouse_event \<Rightarrow> state \<Rightarrow> drag_state \<Rightarrow> js_error + (state \<times> drag_state)" where
  "handleMouseDown r e s d =
     (let px = clientX e - rect_left r;
          py = clientY e - rect_top r
      in case hit_loop px py (textLayers s) (length (textLayers s)) of
           Inl err \<Rightarrow> Inl err
         | Inr None \<Rightarrow> Inr (s, d)
         | Inr (Some l) \<Rightarrow>
             (case memeEditorReducer s (SELECT_LAYER (Some (layer_id l))) of
                Inl err \<Rightarrow> Inl err
              | Inr s' \<Rightarrow>
                  Inr (s', d\<lparr>dragging := Some (layer_id l),
                             dragStart := (px - layer_x l, py - layer_y l)\<rparr>)))"

text \<open>
  The specification's words: the axis-aligned, unrotated bounding box
  \<open>[x, x + width] \<times> [y, y + height]\<close> of a layer contains the point.
\<close>

definition in_bounding_box :: "real \<Rightarrow> real \<Rightarrow> layer \<Rightarrow> bool" where
  "in_bounding_box px py l \<longleftrightarrow>
     px \<in> {layer_x l .. layer_x l + width l} \<and> py \<in> {layer_y l .. layer_y l + height l}"

section \<open>Render and share payloads\<close>

text \<open>
  \<^verbatim>\<open>generatePreview\<close> and \<^verbatim>\<open>handleShare\<close> of the right panel build the object handed
  to \<^verbatim>\<open>renderMeme\<close> and \<^verbatim>\<open>shareMeme\<close>. An object literal with ten keys is a record with
  ten fields.
\<close>

record payload_layer =
  out_text :: string
  out_x :: real
  out_y :: real
  out_fontSize :: real
  out_fontFamily :: string
  out_color :: string
  out_strokeColor :: string
  out_strokeWidth :: real
  out_textAlign :: string
  out_rotation :: real

record memeData =
  data_baseImage :: string
  data_textLayers :: "payload_layer list"

text \<open>The callback of \<^verbatim>\<open>textLayers.map\<close> in \<^verbatim>\<open>generatePreview\<close>.\<close>

fun preview_layers :: "slot list \<Rightarrow> js_error + payload_layer list" where
  "preview_layers [] = Inr []"
| "preview_layers (None # rest) = Inl TypeError"
| "preview_layers (Some layer # rest) =
     (case preview_layers rest of
        Inl e \<Rightarrow> Inl e
      | Inr rest' \<Rightarrow>
          Inr (\<lparr>out_text = layer_text layer,
                out_x = layer_x layer,
                out_y = layer_y layer,
                out_fontSize = fontSize layer,
                out_fontFamily = fontFamily layer,
                out_color = color layer,
                out_strokeColor = strokeColor layer,
                out_strokeWidth = strokeWidth layer,
                out_textAlign = textAlign layer,
                out_rotation = rotation layer\<rparr> # rest'))"

text \<open>The callback of \<^verbatim>\<open>textLayers.map\<close> in \<^verbatim>\<open>handleShare\<close>.\<close>

fun share_layers :: "slot list \<Rightarrow> js_error + payload_layer list" where
  "share_layers [] = Inr []"
| "share_layers (None # rest) = Inl TypeError"
| "share_layers (Some layer # rest) =
     (case share_layers rest of
        Inl e \<Rightarrow> Inl e
      | Inr rest' \<Rightarrow>
          Inr (\<lparr>out_text = layer_text layer,
                out_x = layer_x layer,
                out_y = layer_y layer,
                out_fontSize = fontSize layer,
                out_fontFamily = fontFamily layer,
                out_color = color layer,
                out_strokeColor = strokeColor layer,
                out_strokeWidth = strokeWidth layer,
                out_textAlign = textAlign layer,
                out_rotation = rotation layer\<rparr> # rest'))"

text \<open>
  \<^verbatim>\<open>if (!baseImage) return;\<close> leaves without a request when the base image is
  \<^verbatim>\<open>null\<close> or the empty string. Otherwise the result is the argument of
  \<^verbatim>\<open>renderMeme\<close> (of \<^verbatim>\<open>shareMeme\<close>), or the error that the \<^verbatim>\<open>catch\<close> block reports.
\<close>

definition generatePreview :: "string option \<Rightarrow> slot list \<Rightarrow> (js_error + memeData) option" where
  "generatePreview img ls =
     (case img of
        None \<Rightarrow> None
      | Some u \<Rightarrow>
          (if u = [] then None
           else Some (case preview_layers ls of
                        Inl e \<Rightarrow> Inl e
                      | Inr ps \<Rightarrow> Inr \<lparr>data_baseImage = u, data_textLayers = ps\<rparr>)))"

definition handleShare :: "string option \<Rightarrow> slot list \<Rightarrow> (js_error + memeData) option" where
  "handleShare img ls =
     (case img of
        None \<Rightarrow> None
      | Some u \<Rightarrow>
          (if u = [] then None
           else Some (case share_layers ls of
                        Inl e \<Rightarrow> Inl e
                      | Inr ps \<Rightarrow> Inr \<lparr>data_baseImage = u, data_textLayers = ps\<rparr>)))"

section \<open>Predicates on states and actions\<close>

text \<open>The transitions that create and destroy layers.\<close>

fun is_add_or_delete :: "action \<Rightarrow> bool" where
  "is_add_or_delete ADD_TEXT_LAYER = True"
| "is_add_or_delete (DELETE_TEXT_LAYER i) = True"
| "is_add_or_delete a = False"

text \<open>The selection is \<^verbatim>\<open>null\<close> or the id of a layer of the array.\<close>

definition selection_present :: "state \<Rightarrow> bool" where
  "selection_present s =
     (case selectedLayerId s of
        None \<Rightarrow> True
      | Some i \<Rightarrow> i \<in> set (layer_ids (textLayers s)))"

section \<open>Example states\<close>

text \<open>The layer that \<^verbatim>\<open>ADD_TEXT_LAYER\<close> creates when the counter is \<open>i\<close>.\<close>

definition default_layer :: "int \<Rightarrow> layer" where
  "default_layer i = newLayer (initialState\<lparr>nextLayerId := i\<rparr>)"

text \<open>The state after choosing an image and adding one layer.\<close>

definition one_layer_state :: state where
  "one_layer_state =
     \<lparr>baseImage = Some ''img1'',
      textLayers = [Some (newLayer initialState)],
      selectedLayerId = Some 1,
      nextLayerId = 2\<rparr>"

text \<open>The state after choosing an image and adding three layers.\<close>

definition three_layer_state :: state where
  "three_layer_state =
     \<lparr>baseImage = Some ''img1'',
      textLayers = [Some (default_layer 1), Some (default_layer 2), Some (default_layer 3)],
      selectedLayerId = Some 3,
      nextLayerId = 4\<rparr>"

text \<open>
  Four layers added, then the third one given the id \<open>2\<close> by an update whose patch has
  the key \<^verbatim>\<open>id\<close>: two layers carry the id \<open>2\<close>.
\<close>

definition twin_state :: state where
  "twin_state =
     \<lparr>baseImage = None,
      textLayers = [Some (default_layer 1), Some (default_layer 2), Some (default_layer 2),
                    Some (default_layer 4)],
      selectedLayerId = Some 4,
      nextLayerId = 5\<rparr>"

text \<open>
  Three layers added, then the third one given another text and the id \<open>2\<close> by two
  updates: two layers that differ in their text carry the id \<open>2\<close>.
\<close>

definition twin_text_state :: state where
  "twin_text_state =
     \<lparr>baseImage = None,
      textLayers = [Some (default_layer 1), Some (default_layer 2),
                    Some ((default_layer 2)\<lparr>layer_text := ''second''\<rparr>)],
      selectedLayerId = Some 3,
      nextLayerId = 4\<rparr>"

text \<open>
  Two layers added, the second one given the id \<open>0\<close> by an update, the first one
  selected.
\<close>

definition zero_id_state :: state where
  "zero_id_state =
     \<lparr>baseImage = None,
      textLayers = [Some (default_layer 1), Some (default_layer 0)],
      selectedLayerId = Some 1,
      nextLayerId = 3\<rparr>"

text \<open>
  Two layers on the same spot (the default position), the upper one turned by 90
  degrees, the lower one selected.
\<close>

definition overlap_state :: state where
  "overlap_state =
     \<lparr>baseImage = Some ''img1'',
      textLayers = [Some (default_layer 1), Some ((default_layer 2)\<lparr>rotation := 90\<rparr>)],
      selectedLayerId = Some 1,
      nextLayerId = 3\<rparr>"

section \<open>Facts about the array operations\<close>

lemma map_update_no_holes:
  "no_holes ls \<Longrightarrow> map_update i p ls =
     Inr (map (map_option (\<lambda>l. if layer_id l = i then merge_updates l p else l)) ls)"
  by (induction ls rule: map_update.induct) (auto simp: no_holes_def)

lemma filter_out_no_holes:
  "no_holes ls \<Longrightarrow> filter_out i ls = Inr (filter (\<lambda>e. map_option layer_id e \<noteq> Some i) ls)"
  by (induction ls rule: filter_out.induct) (auto simp: no_holes_def)

lemma findIndex_from_no_throw:
  "no_holes ls \<Longrightarrow> findIndex_from k i ls \<noteq> Inl e"
  by (induction k i ls rule: findIndex_from.induct) (auto simp: no_holes_def)

lemma no_holes_filter: "no_holes ls \<Longrightarrow> no_holes (filter P ls)"
  by (simp add: no_holes_def list_all_iff)

lemma layer_ids_no_holes: "no_holes ls \<Longrightarrow> layer_ids ls = map (\<lambda>e. layer_id (the e)) ls"
  by (induction ls) (auto simp: no_holes_def layer_ids_def)

lemma mem_layer_ids: "i \<in> set (layer_ids ls) \<longleftrightarrow> (\<exists>l. Some l \<in> set ls \<and> layer_id l = i)"
  by (force simp: layer_ids_def)

lemma first_id_or_null_cases:
  "first_id_or_null ls = None \<or>
   (\<exists>l. Some l \<in> set ls \<and> first_id_or_null ls = Some (layer_id l))"
  by (cases ls) (auto simp: first_id_or_null_def js_get_def split: option.splits)

lemma first_id_or_null_nonzero:
  "no_holes ls \<Longrightarrow> 0 \<notin> set (layer_ids ls) \<Longrightarrow>
   first_id_or_null ls = (case ls of [] \<Rightarrow> None | e # _ \<Rightarrow> map_option layer_id e)"
  by (cases ls)
     (auto simp: first_id_or_null_def js_get_def no_holes_def layer_ids_def
           split: option.splits)

text \<open>Where \<^verbatim>\<open>findIndex\<close> stops: at the first position that carries the id.\<close>

lemma findIndex_from_at:
  "no_holes ls \<Longrightarrow> k < length ls \<Longrightarrow> layer_id (the (ls ! k)) = i \<Longrightarrow>
   \<forall>j<k. layer_id (the (ls ! j)) \<noteq> i \<Longrightarrow> findIndex_from m i ls = Inr (m + int k)"
proof (induction m i ls arbitrary: k rule: findIndex_from.induct)
  case (1 m i)
  then show ?case by simp
next
  case (2 m i rest)
  then show ?case by (simp add: no_holes_def)
next
  case (3 m i l rest)
  show ?case
  proof (cases k)
    case 0
    with 3 show ?thesis by simp
  next
    case (Suc k')
    from 3(5) Suc have "layer_id l \<noteq> i" by auto
    moreover have "findIndex_from (m + 1) i rest = Inr (m + 1 + int k')"
    proof (rule 3(1))
      show "layer_id l \<noteq> i" by fact
      show "no_holes rest" using 3(2) by (simp add: no_holes_def)
      show "k' < length rest" using 3(3) Suc by simp
      show "layer_id (the (rest ! k')) = i" using 3(4) Suc by simp
      show "\<forall>j<k'. layer_id (the (rest ! j)) \<noteq> i" using 3(5) Suc by auto
    qed
    ultimately show ?thesis using Suc by simp
  qed
qed

lemma findIndex_from_unknown:
  "no_holes ls \<Longrightarrow> i \<notin> set (layer_ids ls) \<Longrightarrow> findIndex_from k i ls = Inr (- 1)"
  by (induction k i ls rule: findIndex_from.induct) (auto simp: no_holes_def layer_ids_def)

lemma swap_elems_in_range:
  "a < length ls \<Longrightarrow> b < length ls \<Longrightarrow>
   swap_elems ls (int a) (int b) = ls[a := ls ! b, b := ls ! a]"
  by (simp add: swap_elems_def js_get_def js_set_def Let_def)

lemma distinct_ids_nth_neq:
  assumes "no_holes ls" "distinct (layer_ids ls)" "j < length ls" "k < length ls" "j \<noteq> k"
  shows "layer_id (the (ls ! j)) \<noteq> layer_id (the (ls ! k))"
proof -
  have "distinct (map (\<lambda>e. layer_id (the e)) ls)"
    using assms by (simp add: layer_ids_no_holes)
  then have "map (\<lambda>e. layer_id (the e)) ls ! j \<noteq> map (\<lambda>e. layer_id (the e)) ls ! k"
    using assms nth_eq_iff_index_eq [of "map (\<lambda>e. layer_id (the e)) ls" j k] by simp
  then show ?thesis using assms by simp
qed

lemma merge_no_updates: "merge_updates l no_updates = l"
  by (cases l) (simp add: merge_updates_def no_updates_def)

lemma merge_single_field:
  "merge_updates l (no_updates\<lparr>upd_text := Some t\<rparr>) = l\<lparr>layer_text := t\<rparr>"
  "merge_updates l (no_updates\<lparr>upd_x := Some v\<rparr>) = l\<lparr>layer_x := v\<rparr>"
  "merge_updates l (no_updates\<lparr>upd_y := Some v\<rparr>) = l\<lparr>layer_y := v\<rparr>"
  "merge_updates l (no_updates\<lparr>upd_fontSize := Some v\<rparr>) = l\<lparr>fontSize := v\<rparr>"
  "merge_updates l (no_updates\<lparr>upd_fontFamily := Some t\<rparr>) = l\<lparr>fontFamily := t\<rparr>"
  "merge_updates l (no_updates\<lparr>upd_color := Some t\<rparr>) = l\<lparr>color := t\<rparr>"
  "merge_updates l (no_updates\<lparr>upd_strokeColor := Some t\<rparr>) = l\<lparr>strokeColor := t\<rparr>"
  "merge_updates l (no_updates\<lparr>upd_strokeWidth := Some v\<rparr>) = l\<lparr>strokeWidth := v\<rparr>"
  "merge_updates l (no_updates\<lparr>upd_textAlign := Some t\<rparr>) = l\<lparr>textAlign := t\<rparr>"
  "merge_updates l (no_updates\<lparr>upd_rotation := Some v\<rparr>) = l\<lparr>rotation := v\<rparr>"
  by (cases l; simp add: merge_updates_def no_updates_def)+

section \<open>The example states are reachable\<close>

lemma reach_one_layer_state:
  "dispatch_all initialState [SET_BASE_IMAGE ''img1'', ADD_TEXT_LAYER] = Inr one_layer_state"
  by (simp add: one_layer_state_def initialState_def newLayer_def)

lemma reach_three_layer_state:
  "dispatch_all initialState
     [SET_BASE_IMAGE ''img1'', ADD_TEXT_LAYER, ADD_TEXT_LAYER, ADD_TEXT_LAYER] =
   Inr three_layer_state"
  by (simp add: three_layer_state_def initialState_def newLayer_def default_layer_def)

lemma reach_twin_state:
  "dispatch_all initialState
     [ADD_TEXT_LAYER, ADD_TEXT_LAYER, ADD_TEXT_LAYER, ADD_TEXT_LAYER,
      UPDATE_TEXT_LAYER 3 (no_updates\<lparr>upd_id := Some 2\<rparr>)] = Inr twin_state"
  by (simp add: twin_state_def initialState_def newLayer_def default_layer_def
                merge_updates_def no_updates_def)

lemma reach_zero_id_state:
  "dispatch_all initialState
     [ADD_TEXT_LAYER, ADD_TEXT_LAYER, UPDATE_TEXT_LAYER 2 (no_updates\<lparr>upd_id := Some 0\<rparr>),
      SELECT_LAYER (Some 1)] = Inr zero_id_state"
  by (simp add: zero_id_state_def initialState_def newLayer_def default_layer_def
                merge_updates_def no_updates_def)

lemma reach_overlap_state:
  "dispatch_all initialState
     [SET_BASE_IMAGE ''img1'', ADD_TEXT_LAYER, ADD_TEXT_LAYER,
      UPDATE_TEXT_LAYER 2 (no_updates\<lparr>upd_rotation := Some 90\<rparr>),
      SELECT_LAYER (Some 1)] = Inr overlap_state"
  by (simp add: overlap_state_def initialState_def newLayer_def default_layer_def
                merge_updates_def no_updates_def)

section \<open>Totality of the reducer and the id counter\<close>

text \<open>On an array of layer objects no transition throws.\<close>

lemma reducer_total:
  "no_holes (textLayers s) \<Longrightarrow> \<exists>s'. memeEditorReducer s a = Inr s'"
  by (cases a)
     (auto simp: map_update_no_holes filter_out_no_holes findIndex_def
                 findIndex_from_no_throw split: sum.splits)

lemma reducer_counter:
  "a \<noteq> RESET \<Longrightarrow> memeEditorReducer s a = Inr s' \<Longrightarrow> nextLayerId s \<le> nextLayerId s'"
  by (cases a) (auto split: sum.splits if_splits)

text \<open>
  Claim C3 as stated (no transition, Reset included, lowers \<^verbatim>\<open>nextLayerId\<close>, so no id is
  assigned twice) fails at Reset: in the state with one layer the counter is \<open>2\<close>,
  Reset puts it back to \<open>1\<close>, and the layer added next gets the id \<open>1\<close> again.
\<close>

theorem reset_lowers_counter:
  "dispatch_all initialState [SET_BASE_IMAGE ''img1'', ADD_TEXT_LAYER] = Inr one_layer_state \<and>
   memeEditorReducer one_layer_state RESET = Inr initialState \<and>
   nextLayerId initialState < nextLayerId one_layer_state \<and>
   layer_ids (textLayers one_layer_state) = [1] \<and>
   dispatch_all one_layer_state [RESET, ADD_TEXT_LAYER] =
     Inr (one_layer_state\<lparr>baseImage := None\<rparr>) \<and>
   layer_ids (textLayers (one_layer_state\<lparr>baseImage := None\<rparr>)) = [1]"
  by (simp add: one_layer_state_def initialState_def newLayer_def layer_ids_def)

lemma dispatch_all_append:
  "dispatch_all s (xs @ ys) =
     (case dispatch_all s xs of Inl e \<Rightarrow> Inl e | Inr t \<Rightarrow> dispatch_all t ys)"
  by (induction xs arbitrary: s) (auto split: sum.splits)

lemma dispatch_counter:
  "RESET \<notin> set acts \<Longrightarrow> dispatch_all s acts = Inr s' \<Longrightarrow> nextLayerId s \<le> nextLayerId s'"
proof (induction acts arbitrary: s)
  case Nil
  then show ?case by simp
next
  case (Cons a acts)
  from Cons.prems(2) obtain s1 where s1: "memeEditorReducer s a = Inr s1"
    and rest: "dispatch_all s1 acts = Inr s'"
    by (auto split: sum.splits)
  from Cons.prems(1) have "a \<noteq> RESET" "RESET \<notin> set acts" by auto
  with s1 rest Cons.IH [of s1] reducer_counter [of a s s1] show ?case by simp
qed

text \<open>
  Two AddTextLayer transitions with no Reset between them: the layer that the later one
  appends has an id strictly greater than the counter the earlier one used as its id.
\<close>

lemma later_add_id:
  assumes "RESET \<notin> set acts"
    and "dispatch_all s (ADD_TEXT_LAYER # acts @ [ADD_TEXT_LAYER]) = Inr s'"
  shows "\<exists>l. last (textLayers s') = Some l \<and> nextLayerId s < layer_id l"
proof -
  let ?s1 = "s\<lparr>textLayers := textLayers s @ [Some (newLayer s)],
                selectedLayerId := Some (layer_id (newLayer s)),
                nextLayerId := nextLayerId s + 1\<rparr>"
  from assms(2) obtain t where t: "dispatch_all ?s1 acts = Inr t"
    and fin: "memeEditorReducer t ADD_TEXT_LAYER = Inr s'"
    by (auto simp: dispatch_all_append split: sum.splits)
  from dispatch_counter [OF assms(1) t] have "nextLayerId s + 1 \<le> nextLayerId t" by simp
  with fin show ?thesis by (auto simp: newLayer_def)
qed

text \<open>
  Claim C3, amended. Every transition other than Reset returns a state (on an array of
  layer objects) and leaves \<^verbatim>\<open>nextLayerId\<close> greater than or equal to what it was.
  AddTextLayer gives the new layer the counter's value as its id and advances the
  counter by one, so as long as no Reset happens the id that a later AddTextLayer
  assigns is strictly greater than the id an earlier one assigned: no id is assigned
  twice. Reset returns the initial state, whose counter is \<open>1\<close>, and the layer added
  after a Reset gets the id \<open>1\<close> again.
\<close>

theorem counter_monotone_except_reset:
  "(a \<noteq> RESET \<longrightarrow>
      (no_holes (textLayers s) \<longrightarrow> (\<exists>s'. memeEditorReducer s a = Inr s')) \<and>
      (\<forall>s'. memeEditorReducer s a = Inr s' \<longrightarrow> nextLayerId s \<le> nextLayerId s')) \<and>
   (\<exists>s1. memeEditorReducer s ADD_TEXT_LAYER = Inr s1 \<and>
         last (textLayers s1) = Some (newLayer s) \<and>
         layer_id (newLayer s) = nextLayerId s \<and>
         nextLayerId s1 = nextLayerId s + 1) \<and>
   (\<forall>acts s'. RESET \<notin> set acts \<longrightarrow>
      dispatch_all s (ADD_TEXT_LAYER # acts @ [ADD_TEXT_LAYER]) = Inr s' \<longrightarrow>
      (\<exists>l. last (textLayers s') = Some l \<and> nextLayerId s < layer_id l)) \<and>
   memeEditorReducer s RESET = Inr initialState \<and>
   nextLayerId initialState = 1 \<and>
   (\<exists>s'. dispatch_all s [RESET, ADD_TEXT_LAYER] = Inr s' \<and>
         layer_ids (textLayers s') = [1])"
  using reducer_total [of s a] reducer_counter [of a s] later_add_id [of _ s]
  by (auto simp: initialState_def newLayer_def layer_ids_def)

theorem counter_monotone_except_reset_witness:
  "ADD_TEXT_LAYER \<noteq> RESET \<and> no_holes (textLayers one_layer_state) \<and>
   RESET \<notin> set [DELETE_TEXT_LAYER 2, SET_BASE_IMAGE ''img2''] \<and>
   dispatch_all one_layer_state
     ([ADD_TEXT_LAYER] @ [DELETE_TEXT_LAYER 2, SET_BASE_IMAGE ''img2''] @ [ADD_TEXT_LAYER]) =
     Inr \<lparr>baseImage = Some ''img2'', textLayers = [Some (default_layer 3)],
          selectedLayerId = Some 3, nextLayerId = 4\<rparr> \<and>
   nextLayerId one_layer_state < layer_id (default_layer 3) \<and>
   (\<exists>s'. memeEditorReducer one_layer_state ADD_TEXT_LAYER = Inr s' \<and>
         nextLayerId one_layer_state \<le> nextLayerId s' \<and> nextLayerId s' = 3)"
  using counter_monotone_except_reset [of ADD_TEXT_LAYER one_layer_state]
  by (simp add: one_layer_state_def no_holes_def default_layer_def newLayer_def initialState_def
                first_id_or_null_def js_get_def)

section \<open>Transitions that name an id no layer carries\<close>

lemma update_missing_id:
  assumes "no_holes (textLayers s)" "i \<notin> set (layer_ids (textLayers s))"
  shows "memeEditorReducer s (UPDATE_TEXT_LAYER i p) = Inr s"
proof -
  have "map (map_option (\<lambda>l. if layer_id l = i then merge_updates l p else l)) (textLayers s)
          = textLayers s"
    using assms by (intro map_idI) (auto simp: mem_layer_ids no_holes_def list_all_iff)
  with assms(1) show ?thesis by (simp add: map_update_no_holes)
qed

text \<open>
  For \<^verbatim>\<open>DELETE_TEXT_LAYER\<close> the selection must not be the missing id itself: a selection
  that points at no layer is replaced by the first layer's id.
\<close>

lemma delete_missing_id:
  assumes "no_holes (textLayers s)" "i \<notin> set (layer_ids (textLayers s))"
    and "selectedLayerId s \<noteq> Some i"
  shows "memeEditorReducer s (DELETE_TEXT_LAYER i) = Inr s"
proof -
  have "filter (\<lambda>e. map_option layer_id e \<noteq> Some i) (textLayers s) = textLayers s"
    using assms by (auto simp: filter_id_conv mem_layer_ids)
  with assms show ?thesis by (simp add: filter_out_no_holes)
qed

lemma move_down_missing_id:
  "no_holes (textLayers s) \<Longrightarrow> i \<notin> set (layer_ids (textLayers s)) \<Longrightarrow>
   memeEditorReducer s (MOVE_LAYER_DOWN i) = Inr s"
  by (simp add: findIndex_def findIndex_from_unknown)

lemma other_action_unchanged: "memeEditorReducer s (OTHER t) = Inr s"
  by simp

text \<open>
  \<^verbatim>\<open>MOVE_LAYER_UP\<close> is the exception. \<^verbatim>\<open>findIndex\<close> answers \<open>-1\<close>, the guard
  \<^verbatim>\<open>upIndex < textLayers.length - 1\<close> holds for every array that is not empty, and
  the swap of the elements \<open>-1\<close> and \<open>0\<close> stores \<^verbatim>\<open>undefined\<close> in element \<open>0\<close>.
\<close>

lemma move_up_missing_id:
  "no_holes (textLayers s) \<Longrightarrow> i \<notin> set (layer_ids (textLayers s)) \<Longrightarrow>
   memeEditorReducer s (MOVE_LAYER_UP i) =
     Inr (if textLayers s = [] then s else s\<lparr>textLayers := None # tl (textLayers s)\<rparr>)"
  by (cases "textLayers s")
     (simp_all add: findIndex_def findIndex_from_unknown swap_elems_def js_get_def js_set_def)

text \<open>
  Claim C1 (an id that no layer carries is a silent no-op, and the reducer never fails).
  The code breaks it in \<^verbatim>\<open>MOVE_LAYER_UP\<close>. In the state reached by choosing an image
  and adding one layer (its id is \<open>1\<close>), moving the unknown id \<open>2\<close> up replaces that
  layer by \<^verbatim>\<open>undefined\<close>, so the result differs from the input; the next update throws
  a \<^verbatim>\<open>TypeError\<close>.
\<close>

theorem move_layer_up_unknown_id:
  "dispatch_all initialState [SET_BASE_IMAGE ''img1'', ADD_TEXT_LAYER] = Inr one_layer_state \<and>
   layer_ids (textLayers one_layer_state) = [1] \<and>
   memeEditorReducer one_layer_state (MOVE_LAYER_UP 2) =
     Inr (one_layer_state\<lparr>textLayers := [None]\<rparr>) \<and>
   one_layer_state\<lparr>textLayers := [None]\<rparr> \<noteq> one_layer_state \<and>
   memeEditorReducer (one_layer_state\<lparr>textLayers := [None]\<rparr>)
     (UPDATE_TEXT_LAYER 1 (no_updates\<lparr>upd_fontSize := Some 80\<rparr>)) = Inl TypeError"
  by (simp add: one_layer_state_def initialState_def newLayer_def findIndex_def
                swap_elems_def js_get_def js_set_def layer_ids_def)

section \<open>Selection consistency\<close>

lemma add_delete_invariant:
  assumes "no_holes (textLayers s)" "selection_present s" "is_add_or_delete a"
  shows "\<exists>s'. memeEditorReducer s a = Inr s' \<and> no_holes (textLayers s') \<and>
              selection_present s'"
proof (cases a)
  case ADD_TEXT_LAYER
  then show ?thesis
    using assms by (auto simp: selection_present_def no_holes_def mem_layer_ids)
next
  case (DELETE_TEXT_LAYER i)
  then show ?thesis
    using assms
      first_id_or_null_cases
        [of "filter (\<lambda>e. map_option layer_id e \<noteq> Some i) (textLayers s)"]
    by (auto simp: selection_present_def filter_out_no_holes no_holes_filter mem_layer_ids
             split: option.splits)
qed (use assms in auto)

lemma dispatch_add_delete:
  "no_holes (textLayers s) \<Longrightarrow> selection_present s \<Longrightarrow> list_all is_add_or_delete acts \<Longrightarrow>
   \<exists>s'. dispatch_all s acts = Inr s' \<and> no_holes (textLayers s') \<and> selection_present s'"
proof (induction acts arbitrary: s)
  case Nil
  then show ?case by simp
next
  case (Cons a acts)
  then obtain s1 where s1: "memeEditorReducer s a = Inr s1" "no_holes (textLayers s1)"
      "selection_present s1"
    using add_delete_invariant [of s a] by auto
  from Cons.IH [OF s1(2,3)] Cons.prems(3) s1(1) show ?case by simp
qed

text \<open>
  Claim C2: from the initial state, every sequence of AddTextLayer and DeleteTextLayer
  transitions runs to a state whose \<^verbatim>\<open>selectedLayerId\<close> is \<^verbatim>\<open>null\<close> or the id of a
  layer that is in the array.
\<close>

theorem selection_consistency:
  assumes "list_all is_add_or_delete acts"
  shows "\<exists>s. dispatch_all initialState acts = Inr s \<and>
             (selectedLayerId s = None \<or>
              (\<exists>l. Some l \<in> set (textLayers s) \<and> selectedLayerId s = Some (layer_id l)))"
proof -
  have "no_holes (textLayers initialState)" "selection_present initialState"
    by (simp_all add: initialState_def no_holes_def selection_present_def)
  from dispatch_add_delete [OF this assms] obtain s where
    s: "dispatch_all initialState acts = Inr s" "selection_present s" by blast
  then show ?thesis
    by (cases "selectedLayerId s") (auto simp: selection_present_def mem_layer_ids)
qed

theorem selection_consistency_witness:
  "list_all is_add_or_delete [ADD_TEXT_LAYER, ADD_TEXT_LAYER, DELETE_TEXT_LAYER 2] \<and>
   (\<exists>s. dispatch_all initialState [ADD_TEXT_LAYER, ADD_TEXT_LAYER, DELETE_TEXT_LAYER 2] = Inr s \<and>
        (selectedLayerId s = None \<or>
         (\<exists>l. Some l \<in> set (textLayers s) \<and> selectedLayerId s = Some (layer_id l))))"
  using selection_consistency [of "[ADD_TEXT_LAYER, ADD_TEXT_LAYER, DELETE_TEXT_LAYER 2]"]
  by simp

section \<open>Setting the base image\<close>

text \<open>
  Claim C5: SetBaseImage with the same url, applied once and then again, gives both
  times a state with no layers and no selection, whatever layers there were before; the
  two states agree on \<^verbatim>\<open>baseImage\<close>, \<^verbatim>\<open>textLayers\<close> and \<^verbatim>\<open>selectedLayerId\<close> (they are
  equal).
\<close>

theorem set_base_image_twice:
  "\<exists>s1 s2. memeEditorReducer s (SET_BASE_IMAGE u) = Inr s1 \<and>
           memeEditorReducer s1 (SET_BASE_IMAGE u) = Inr s2 \<and>
           textLayers s1 = [] \<and> selectedLayerId s1 = None \<and>
           textLayers s2 = [] \<and> selectedLayerId s2 = None \<and>
           baseImage s1 = Some u \<and> baseImage s2 = Some u \<and> s2 = s1"
  by simp

text \<open>
  Claim C10: SetBaseImage replaces \<^verbatim>\<open>baseImage\<close>, \<^verbatim>\<open>textLayers\<close> and
  \<^verbatim>\<open>selectedLayerId\<close> and nothing else, so \<^verbatim>\<open>nextLayerId\<close> keeps its value: the first
  layer added to the new composition gets the id the counter had before the image
  changed, and the counter goes on from there. Reset puts the counter back to \<open>1\<close>,
  and no other transition lowers it.
\<close>

theorem set_base_image_keeps_counter:
  "memeEditorReducer s (SET_BASE_IMAGE u) =
     Inr (s\<lparr>baseImage := Some u, textLayers := [], selectedLayerId := None\<rparr>) \<and>
   nextLayerId (s\<lparr>baseImage := Some u, textLayers := [], selectedLayerId := None\<rparr>) =
     nextLayerId s \<and>
   (\<exists>s'. dispatch_all s [SET_BASE_IMAGE u, ADD_TEXT_LAYER] = Inr s' \<and>
         layer_ids (textLayers s') = [nextLayerId s] \<and>
         nextLayerId s' = nextLayerId s + 1) \<and>
   (\<exists>s'. memeEditorReducer s RESET = Inr s' \<and> nextLayerId s' = 1) \<and>
   (\<forall>a s'. a \<noteq> RESET \<longrightarrow> memeEditorReducer s a = Inr s' \<longrightarrow>
      nextLayerId s \<le> nextLayerId s')"
  using reducer_counter [of _ s]
  by (simp add: layer_ids_def newLayer_def initialState_def)

theorem set_base_image_keeps_counter_witness:
  "SET_BASE_IMAGE ''img2'' \<noteq> RESET \<and>
   memeEditorReducer three_layer_state (SET_BASE_IMAGE ''img2'') =
     Inr \<lparr>baseImage = Some ''img2'', textLayers = [], selectedLayerId = None,
          nextLayerId = 4\<rparr> \<and>
   nextLayerId three_layer_state \<le>
     nextLayerId \<lparr>baseImage = Some ''img2'', textLayers = [], selectedLayerId = None,
                  nextLayerId = 4\<rparr>"
  using set_base_image_keeps_counter [of three_layer_state "''img2''"]
  by (simp add: three_layer_state_def)

section \<open>Z-order: moving a layer up and down again\<close>

text \<open>
  Claim C4 as stated (for every state and every id at neither end of the array, moving
  the id up and then down restores the array) fails when two layers carry the id. In
  the array with the ids \<open>1, 2, 2, 4\<close> the id \<open>2\<close> sits at the positions \<open>1\<close> and \<open>2\<close>,
  neither the first nor the last. Moving it up swaps the two layers that carry it;
  \<^verbatim>\<open>findIndex\<close> then finds the id at position \<open>1\<close> again, and moving it down swaps the
  positions \<open>1\<close> and \<open>0\<close>: the ids are now \<open>2, 1, 2, 4\<close>.
\<close>

theorem move_up_down_shared_id:
  "dispatch_all initialState
     [ADD_TEXT_LAYER, ADD_TEXT_LAYER, ADD_TEXT_LAYER, ADD_TEXT_LAYER,
      UPDATE_TEXT_LAYER 3 (no_updates\<lparr>upd_id := Some 2\<rparr>)] = Inr twin_state \<and>
   layer_ids (textLayers twin_state) = [1, 2, 2, 4] \<and>
   dispatch_all twin_state [MOVE_LAYER_UP 2, MOVE_LAYER_DOWN 2] =
     Inr (twin_state\<lparr>textLayers := [Some (default_layer 2), Some (default_layer 1),
                                     Some (default_layer 2), Some (default_layer 4)]\<rparr>) \<and>
   [Some (default_layer 2), Some (default_layer 1), Some (default_layer 2),
    Some (default_layer 4)] \<noteq> textLayers twin_state"
  by (simp add: twin_state_def default_layer_def newLayer_def initialState_def layer_ids_def
                findIndex_def swap_elems_def js_get_def js_set_def merge_updates_def
                no_updates_def)

text \<open>
  Claim C4, amended: in every state whose layer ids are pairwise distinct, for the id
  \<open>i\<close> of the layer at a position \<open>k\<close> that is neither the first nor the last,
  MoveLayerUp(\<open>i\<close>) exchanges the layers at \<open>k\<close> and \<open>k + 1\<close>, and MoveLayerDown(\<open>i\<close>)
  right after it gives the original state back.
\<close>

theorem move_up_then_down_restores:
  assumes nh: "no_holes (textLayers s)"
    and d: "distinct (layer_ids (textLayers s))"
    and k: "0 < k" "k + 1 < length (textLayers s)"
    and i: "layer_ids (textLayers s) ! k = i"
  shows "memeEditorReducer s (MOVE_LAYER_UP i) =
           Inr (s\<lparr>textLayers := (textLayers s)[k := textLayers s ! (k + 1),
                                                k + 1 := textLayers s ! k]\<rparr>) \<and>
         dispatch_all s [MOVE_LAYER_UP i, MOVE_LAYER_DOWN i] = Inr s"
proof -
  let ?ls = "textLayers s"
  let ?ls' = "?ls[k := ?ls ! (k + 1), k + 1 := ?ls ! k]"
  have ik: "layer_id (the (?ls ! k)) = i"
    using i nh k by (simp add: layer_ids_no_holes)
  have other: "layer_id (the (?ls ! j)) \<noteq> i" if "j < length ?ls" "j \<noteq> k" for j
    using distinct_ids_nth_neq [OF nh d that(1) _ that(2)] k ik by simp
  have up: "findIndex i ?ls = Inr (int k)"
    unfolding findIndex_def using findIndex_from_at [OF nh _ ik, of 0] other k by simp
  have step1: "memeEditorReducer s (MOVE_LAYER_UP i) = Inr (s\<lparr>textLayers := ?ls'\<rparr>)"
    using up k swap_elems_in_range [of k ?ls "k + 1"] by (simp add: add.commute)
  have nh': "no_holes ?ls'"
    using nh k
    by (auto simp: no_holes_def list_all_iff dest!: set_update_subset_insert [THEN subsetD])
  have "findIndex_from 0 i ?ls' = Inr (0 + int (k + 1))"
  proof (rule findIndex_from_at [OF nh'])
    show "k + 1 < length ?ls'" using k by simp
    show "layer_id (the (?ls' ! (k + 1))) = i" using k ik by simp
    show "\<forall>j<k + 1. layer_id (the (?ls' ! j)) \<noteq> i"
    proof (intro allI impI)
      fix j assume "j < k + 1"
      then consider "j < k" | "j = k" by linarith
      then show "layer_id (the (?ls' ! j)) \<noteq> i"
      proof cases
        case 1
        then show ?thesis using other [of j] k by simp
      next
        case 2
        then show ?thesis using other [of "k + 1"] k by simp
      qed
    qed
  qed
  then have down: "findIndex i ?ls' = Inr (int k + 1)"
    by (simp add: findIndex_def)
  have restore: "swap_elems ?ls' (int k + 1) (int k + 1 - 1) = ?ls"
  proof -
    have "swap_elems ?ls' (int (k + 1)) (int k) = ?ls'[k + 1 := ?ls' ! k, k := ?ls' ! (k + 1)]"
      using k by (intro swap_elems_in_range) simp_all
    also have "\<dots> = ?ls"
      using k by (simp add: list_eq_iff_nth_eq nth_list_update)
    finally show ?thesis by (simp add: add.commute)
  qed
  have step2: "memeEditorReducer (s\<lparr>textLayers := ?ls'\<rparr>) (MOVE_LAYER_DOWN i) = Inr s"
    using down restore k by simp
  show ?thesis using step1 step2 by simp
qed

theorem move_up_then_down_restores_witness:
  "no_holes (textLayers three_layer_state) \<and>
   distinct (layer_ids (textLayers three_layer_state)) \<and>
   (0::nat) < 1 \<and> 1 + 1 < length (textLayers three_layer_state) \<and>
   layer_ids (textLayers three_layer_state) ! 1 = 2 \<and>
   memeEditorReducer three_layer_state (MOVE_LAYER_UP 2) =
     Inr (three_layer_state\<lparr>textLayers :=
            [Some (default_layer 1), Some (default_layer 3), Some (default_layer 2)]\<rparr>) \<and>
   dispatch_all three_layer_state [MOVE_LAYER_UP 2, MOVE_LAYER_DOWN 2] = Inr three_layer_state"
  using move_up_then_down_restores [of three_layer_state 1 2]
  by (simp add: three_layer_state_def no_holes_def layer_ids_def default_layer_def newLayer_def
                initialState_def findIndex_def swap_elems_def js_get_def js_set_def)

section \<open>Partial updates\<close>

text \<open>
  What an update with one key does in any state: the field is set in every layer that
  carries the id, and nothing else changes.
\<close>

lemma update_one_key_by_id:
  assumes "no_holes (textLayers s)"
  shows "memeEditorReducer s (UPDATE_TEXT_LAYER i (no_updates\<lparr>upd_fontSize := Some v\<rparr>)) =
           Inr (s\<lparr>textLayers :=
                    map (map_option (\<lambda>l. if layer_id l = i then l\<lparr>fontSize := v\<rparr> else l))
                        (textLayers s)\<rparr>) \<and>
         memeEditorReducer s (UPDATE_TEXT_LAYER i (no_updates\<lparr>upd_text := Some t\<rparr>)) =
           Inr (s\<lparr>textLayers :=
                    map (map_option (\<lambda>l. if layer_id l = i then l\<lparr>layer_text := t\<rparr> else l))
                        (textLayers s)\<rparr>) \<and>
         memeEditorReducer s (UPDATE_TEXT_LAYER i (no_updates\<lparr>upd_x := Some v\<rparr>)) =
           Inr (s\<lparr>textLayers :=
                    map (map_option (\<lambda>l. if layer_id l = i then l\<lparr>layer_x := v\<rparr> else l))
                        (textLayers s)\<rparr>) \<and>
         memeEditorReducer s (UPDATE_TEXT_LAYER i (no_updates\<lparr>upd_y := Some v\<rparr>)) =
           Inr (s\<lparr>textLayers :=
                    map (map_option (\<lambda>l. if layer_id l = i then l\<lparr>layer_y := v\<rparr> else l))
                        (textLayers s)\<rparr>) \<and>
         memeEditorReducer s (UPDATE_TEXT_LAYER i (no_updates\<lparr>upd_fontFamily := Some t\<rparr>)) =
           Inr (s\<lparr>textLayers :=
                    map (map_option (\<lambda>l. if layer_id l = i then l\<lparr>fontFamily := t\<rparr> else l))
                        (textLayers s)\<rparr>) \<and>
         memeEditorReducer s (UPDATE_TEXT_LAYER i (no_updates\<lparr>upd_color := Some t\<rparr>)) =
           Inr (s\<lparr>textLayers :=
                    map (map_option (\<lambda>l. if layer_id l = i then l\<lparr>color := t\<rparr> else l))
                        (textLayers s)\<rparr>) \<and>
         memeEditorReducer s (UPDATE_TEXT_LAYER i (no_updates\<lparr>upd_strokeColor := Some t\<rparr>)) =
           Inr (s\<lparr>textLayers :=
                    map (map_option (\<lambda>l. if layer_id l = i then l\<lparr>strokeColor := t\<rparr> else l))
                        (textLayers s)\<rparr>) \<and>
         memeEditorReducer s (UPDATE_TEXT_LAYER i (no_updates\<lparr>upd_strokeWidth := Some v\<rparr>)) =
           Inr (s\<lparr>textLayers :=
                    map (map_option (\<lambda>l. if layer_id l = i then l\<lparr>strokeWidth := v\<rparr> else l))
                        (textLayers s)\<rparr>) \<and>
         memeEditorReducer s (UPDATE_TEXT_LAYER i (no_updates\<lparr>upd_textAlign := Some t\<rparr>)) =
           Inr (s\<lparr>textLayers :=
                    map (map_option (\<lambda>l. if layer_id l = i then l\<lparr>textAlign := t\<rparr> else l))
                        (textLayers s)\<rparr>) \<and>
         memeEditorReducer s (UPDATE_TEXT_LAYER i (no_updates\<lparr>upd_rotation := Some v\<rparr>)) =
           Inr (s\<lparr>textLayers :=
                    map (map_option (\<lambda>l. if layer_id l = i then l\<lparr>rotation := v\<rparr> else l))
                        (textLayers s)\<rparr>)"
  using assms
  by (simp add: map_update_no_holes merge_single_field cong: if_cong)

text \<open>With distinct ids the callback of \<^verbatim>\<open>map\<close> rewrites one element.\<close>

lemma map_update_unique:
  assumes nh: "no_holes ls" and d: "distinct (layer_ids ls)"
    and k: "k < length ls" and i: "layer_ids ls ! k = i"
  shows "map (map_option (\<lambda>l. if layer_id l = i then g l else l)) ls =
         ls[k := map_option g (ls ! k)]"
proof (rule nth_equalityI)
  show "length (map (map_option (\<lambda>l. if layer_id l = i then g l else l)) ls) =
        length (ls[k := map_option g (ls ! k)])" by simp
next
  fix j assume "j < length (map (map_option (\<lambda>l. if layer_id l = i then g l else l)) ls)"
  then have j: "j < length ls" by simp
  have ik: "layer_id (the (ls ! k)) = i"
    using i nh k by (simp add: layer_ids_no_holes)
  from nh j obtain l where l: "ls ! j = Some l"
    by (auto simp: no_holes_def list_all_length)
  show "map (map_option (\<lambda>l. if layer_id l = i then g l else l)) ls ! j =
        ls[k := map_option g (ls ! k)] ! j"
  proof (cases "j = k")
    case True
    with j l ik show ?thesis by simp
  next
    case False
    with distinct_ids_nth_neq [OF nh d j k] ik l have "layer_id l \<noteq> i" by simp
    with False j l show ?thesis by simp
  qed
qed

text \<open>
  Claim C6 as stated (for every state with a layer of the given id, a one-key update
  changes that field on the targeted layer and leaves every other layer as it was)
  fails when two layers carry the id. In the array with the ids \<open>1, 2, 2\<close>, whose last
  two layers differ in their text, \<^verbatim>\<open>UpdateTextLayer(2, {fontSize: 80})\<close> sets the font
  size of both: the callback of \<^verbatim>\<open>map\<close> rewrites every element whose id matches.
\<close>

theorem update_shared_id_changes_both:
  "dispatch_all initialState
     [ADD_TEXT_LAYER, ADD_TEXT_LAYER, ADD_TEXT_LAYER,
      UPDATE_TEXT_LAYER 3 (no_updates\<lparr>upd_text := Some ''second''\<rparr>),
      UPDATE_TEXT_LAYER 3 (no_updates\<lparr>upd_id := Some 2\<rparr>)] = Inr twin_text_state \<and>
   layer_ids (textLayers twin_text_state) = [1, 2, 2] \<and>
   memeEditorReducer twin_text_state
       (UPDATE_TEXT_LAYER 2 (no_updates\<lparr>upd_fontSize := Some 80\<rparr>)) =
     Inr (twin_text_state\<lparr>textLayers :=
            [Some (default_layer 1), Some ((default_layer 2)\<lparr>fontSize := 80\<rparr>),
             Some ((default_layer 2)\<lparr>layer_text := ''second'', fontSize := 80\<rparr>)]\<rparr>) \<and>
   default_layer 2 \<noteq> (default_layer 2)\<lparr>layer_text := ''second''\<rparr> \<and>
   (default_layer 2)\<lparr>fontSize := 80\<rparr> \<noteq> default_layer 2 \<and>
   (default_layer 2)\<lparr>layer_text := ''second'', fontSize := 80\<rparr> \<noteq>
     (default_layer 2)\<lparr>layer_text := ''second''\<rparr>"
  by (simp add: twin_text_state_def default_layer_def newLayer_def initialState_def
                layer_ids_def merge_updates_def no_updates_def)

text \<open>
  Claim C6, amended: in every state whose layer ids are pairwise distinct, for the id
  \<open>i\<close> of the layer at a position \<open>k\<close>, an update of \<open>i\<close> whose patch has one key, such
  as \<^verbatim>\<open>{fontSize: 80}\<close>, replaces the element \<open>k\<close> of the array by the same layer with
  that one field set, and changes nothing else: the other fields of that layer, every
  other layer, the order, \<^verbatim>\<open>baseImage\<close>, \<^verbatim>\<open>selectedLayerId\<close> and \<^verbatim>\<open>nextLayerId\<close> stay as
  they were. Stated for each of the ten style and geometry keys.
\<close>

theorem update_single_field_frame:
  assumes nh: "no_holes (textLayers s)"
    and d: "distinct (layer_ids (textLayers s))"
    and k: "k < length (textLayers s)"
    and i: "layer_ids (textLayers s) ! k = i"
  shows "memeEditorReducer s (UPDATE_TEXT_LAYER i (no_updates\<lparr>upd_fontSize := Some v\<rparr>)) =
           Inr (s\<lparr>textLayers := (textLayers s)
                  [k := map_option (\<lambda>l. l\<lparr>fontSize := v\<rparr>) (textLayers s ! k)]\<rparr>) \<and>
         memeEditorReducer s (UPDATE_TEXT_LAYER i (no_updates\<lparr>upd_text := Some t\<rparr>)) =
           Inr (s\<lparr>textLayers := (textLayers s)
                  [k := map_option (\<lambda>l. l\<lparr>layer_text := t\<rparr>) (textLayers s ! k)]\<rparr>) \<and>
         memeEditorReducer s (UPDATE_TEXT_LAYER i (no_updates\<lparr>upd_x := Some v\<rparr>)) =
           Inr (s\<lparr>textLayers := (textLayers s)
                  [k := map_option (\<lambda>l. l\<lparr>layer_x := v\<rparr>) (textLayers s ! k)]\<rparr>) \<and>
         memeEditorReducer s (UPDATE_TEXT_LAYER i (no_updates\<lparr>upd_y := Some v\<rparr>)) =
           Inr (s\<lparr>textLayers := (textLayers s)
                  [k := map_option (\<lambda>l. l\<lparr>layer_y := v\<rparr>) (textLayers s ! k)]\<rparr>) \<and>
         memeEditorReducer s (UPDATE_TEXT_LAYER i (no_updates\<lparr>upd_fontFamily := Some t\<rparr>)) =
           Inr (s\<lparr>textLayers := (textLayers s)
                  [k := map_option (\<lambda>l. l\<lparr>fontFamily := t\<rparr>) (textLayers s ! k)]\<rparr>) \<and>
         memeEditorReducer s (UPDATE_TEXT_LAYER i (no_updates\<lparr>upd_color := Some t\<rparr>)) =
           Inr (s\<lparr>textLayers := (textLayers s)
                  [k := map_option (\<lambda>l. l\<lparr>color := t\<rparr>) (textLayers s ! k)]\<rparr>) \<and>
         memeEditorReducer s (UPDATE_TEXT_LAYER i (no_updates\<lparr>upd_strokeColor := Some t\<rparr>)) =
           Inr (s\<lparr>textLayers := (textLayers s)
                  [k := map_option (\<lambda>l. l\<lparr>strokeColor := t\<rparr>) (textLayers s ! k)]\<rparr>) \<and>
         memeEditorReducer s (UPDATE_TEXT_LAYER i (no_updates\<lparr>upd_strokeWidth := Some v\<rparr>)) =
           Inr (s\<lparr>textLayers := (textLayers s)
                  [k := map_option (\<lambda>l. l\<lparr>strokeWidth := v\<rparr>) (textLayers s ! k)]\<rparr>) \<and>
         memeEditorReducer s (UPDATE_TEXT_LAYER i (no_updates\<lparr>upd_textAlign := Some t\<rparr>)) =
           Inr (s\<lparr>textLayers := (textLayers s)
                  [k := map_option (\<lambda>l. l\<lparr>textAlign := t\<rparr>) (textLayers s ! k)]\<rparr>) \<and>
         memeEditorReducer s (UPDATE_TEXT_LAYER i (no_updates\<lparr>upd_rotation := Some v\<rparr>)) =
           Inr (s\<lparr>textLayers := (textLayers s)
                  [k := map_option (\<lambda>l. l\<lparr>rotation := v\<rparr>) (textLayers s ! k)]\<rparr>)"
  using nh
  by (simp add: map_update_no_holes merge_single_field map_update_unique [OF nh d k i]
           cong: if_cong)

theorem update_single_field_frame_witness:
  "no_holes (textLayers three_layer_state) \<and>
   distinct (layer_ids (textLayers three_layer_state)) \<and>
   (1::nat) < length (textLayers three_layer_state) \<and>
   layer_ids (textLayers three_layer_state) ! 1 = 2 \<and>
   memeEditorReducer three_layer_state
       (UPDATE_TEXT_LAYER 2 (no_updates\<lparr>upd_fontSize := Some 80\<rparr>)) =
     Inr (three_layer_state\<lparr>textLayers :=
            [Some (default_layer 1), Some ((default_layer 2)\<lparr>fontSize := 80\<rparr>),
             Some (default_layer 3)]\<rparr>)"
  using update_single_field_frame [of three_layer_state 1 2 80]
  by (simp add: three_layer_state_def no_holes_def layer_ids_def default_layer_def
                newLayer_def initialState_def)

section \<open>Deleting a layer\<close>

lemma filter_unique:
  "no_holes ls \<Longrightarrow> distinct (layer_ids ls) \<Longrightarrow> i \<in> set (layer_ids ls) \<Longrightarrow>
   \<exists>pre l post. ls = pre @ Some l # post \<and> layer_id l = i \<and>
     filter (\<lambda>e. map_option layer_id e \<noteq> Some i) ls = pre @ post"
proof (induction ls)
  case Nil
  then show ?case by (simp add: layer_ids_def)
next
  case (Cons e ls)
  from Cons.prems(1) obtain l0 where e: "e = Some l0" and nh: "no_holes ls"
    by (cases e) (auto simp: no_holes_def)
  from Cons.prems(2) e have d: "distinct (layer_ids ls)"
    and notin: "layer_id l0 \<notin> set (layer_ids ls)"
    by (auto simp: layer_ids_def)
  show ?case
  proof (cases "layer_id l0 = i")
    case True
    with notin have "filter (\<lambda>e. map_option layer_id e \<noteq> Some i) ls = ls"
      by (auto simp: filter_id_conv mem_layer_ids)
    with True e show ?thesis
      by (intro exI [of _ "[]"] exI [of _ l0] exI [of _ ls]) simp
  next
    case False
    with Cons.prems(3) e have "i \<in> set (layer_ids ls)"
      by (auto simp: layer_ids_def)
    from Cons.IH [OF nh d this] obtain pre l post where
      "ls = pre @ Some l # post" "layer_id l = i"
      "filter (\<lambda>e. map_option layer_id e \<noteq> Some i) ls = pre @ post" by blast
    with False e show ?thesis
      by (intro exI [of _ "Some l0 # pre"] exI [of _ l] exI [of _ post]) simp
  qed
qed

text \<open>
  Claim C7 as stated (for every state that has a layer with the id: exactly that layer
  goes, and a deleted selection moves to the new first layer, \<^verbatim>\<open>null\<close> only if no layer
  remains) fails in two ways. Where the new first layer has the id \<open>0\<close>,
  \<^verbatim>\<open>remainingLayers[0]?.id || null\<close> is \<^verbatim>\<open>null\<close> although a layer remains. Where two
  layers carry the id, both go.
\<close>

theorem delete_zero_or_shared_id:
  "dispatch_all initialState
     [ADD_TEXT_LAYER, ADD_TEXT_LAYER, UPDATE_TEXT_LAYER 2 (no_updates\<lparr>upd_id := Some 0\<rparr>),
      SELECT_LAYER (Some 1)] = Inr zero_id_state \<and>
   layer_ids (textLayers zero_id_state) = [1, 0] \<and>
   selectedLayerId zero_id_state = Some 1 \<and>
   memeEditorReducer zero_id_state (DELETE_TEXT_LAYER 1) =
     Inr (zero_id_state\<lparr>textLayers := [Some (default_layer 0)], selectedLayerId := None\<rparr>) \<and>
   layer_ids (textLayers twin_state) = [1, 2, 2, 4] \<and>
   memeEditorReducer twin_state (DELETE_TEXT_LAYER 2) =
     Inr (twin_state\<lparr>textLayers := [Some (default_layer 1), Some (default_layer 4)]\<rparr>)"
  by (simp add: twin_state_def zero_id_state_def default_layer_def newLayer_def
                initialState_def first_id_or_null_def js_get_def layer_ids_def
                merge_updates_def no_updates_def)

text \<open>
  Claim C7, amended: in every state whose layer ids are pairwise distinct and not \<open>0\<close>
  and that has a layer with the given id, DeleteTextLayer removes exactly that layer
  and keeps the others in their order; if the id was selected, \<^verbatim>\<open>selectedLayerId\<close>
  becomes the id of the new first layer, or \<^verbatim>\<open>null\<close> if no layer remains; otherwise it
  is unchanged. \<^verbatim>\<open>baseImage\<close> and \<^verbatim>\<open>nextLayerId\<close> are unchanged.
\<close>

theorem delete_layer_postcondition:
  assumes nh: "no_holes (textLayers s)"
    and d: "distinct (layer_ids (textLayers s))"
    and nz: "0 \<notin> set (layer_ids (textLayers s))"
    and i: "i \<in> set (layer_ids (textLayers s))"
  shows "\<exists>pre l post s'.
           textLayers s = pre @ Some l # post \<and> layer_id l = i \<and>
           memeEditorReducer s (DELETE_TEXT_LAYER i) = Inr s' \<and>
           textLayers s' = pre @ post \<and>
           selectedLayerId s' =
             (if selectedLayerId s = Some i
              then (case pre @ post of [] \<Rightarrow> None | e # _ \<Rightarrow> map_option layer_id e)
              else selectedLayerId s) \<and>
           baseImage s' = baseImage s \<and> nextLayerId s' = nextLayerId s"
proof -
  let ?rem = "filter (\<lambda>e. map_option layer_id e \<noteq> Some i) (textLayers s)"
  from filter_unique [OF nh d i] obtain pre l post where
    dec: "textLayers s = pre @ Some l # post" "layer_id l = i" "?rem = pre @ post" by blast
  have "no_holes ?rem" using nh by (rule no_holes_filter)
  moreover have "0 \<notin> set (layer_ids ?rem)"
    using nz by (auto simp: mem_layer_ids)
  ultimately have
    "first_id_or_null ?rem = (case ?rem of [] \<Rightarrow> None | e # _ \<Rightarrow> map_option layer_id e)"
    by (rule first_id_or_null_nonzero)
  then show ?thesis using dec nh
    by (intro exI [of _ pre] exI [of _ l] exI [of _ post]) (simp add: filter_out_no_holes)
qed

theorem delete_layer_postcondition_witness:
  "no_holes (textLayers three_layer_state) \<and>
   distinct (layer_ids (textLayers three_layer_state)) \<and>
   0 \<notin> set (layer_ids (textLayers three_layer_state)) \<and>
   3 \<in> set (layer_ids (textLayers three_layer_state)) \<and>
   selectedLayerId three_layer_state = Some 3 \<and>
   memeEditorReducer three_layer_state (DELETE_TEXT_LAYER 3) =
     Inr (three_layer_state\<lparr>textLayers := [Some (default_layer 1), Some (default_layer 2)],
                             selectedLayerId := Some 1\<rparr>)"
  using delete_layer_postcondition [of three_layer_state 3]
  by (simp add: three_layer_state_def no_holes_def layer_ids_def default_layer_def newLayer_def
                initialState_def first_id_or_null_def js_get_def)

section \<open>Hit testing\<close>

lemma hit_loop_find:
  "no_holes ls \<Longrightarrow> n \<le> length ls \<Longrightarrow>
   hit_loop px py ls n = Inr (find (in_bounding_box px py) (rev (map the (take n ls))))"
proof (induction n)
  case 0
  then show ?case by simp
next
  case (Suc n)
  then have n: "n < length ls" by simp
  with Suc.prems(1) obtain l where l: "ls ! n = Some l"
    by (auto simp: no_holes_def list_all_length)
  from Suc n l show ?case
    by (simp add: take_Suc_conv_app_nth js_get_def in_bounding_box_def)
qed

text \<open>
  Claim C8: a press at a point goes through the layers from the last of the array to
  the first and stops at the first one whose unrotated bounding box
  \<open>[x, x + width] \<times> [y, y + height]\<close> contains the point (\<^const>\<open>find\<close> on the reversed
  array); that layer becomes the selected one and the drag starts on it. With no such
  layer nothing changes. The test does not look at the rotation of a layer.
\<close>

theorem press_hits_topmost_box:
  assumes "no_holes (textLayers s)"
  shows "handleMouseDown r e s d =
           Inr (case find (in_bounding_box (clientX e - rect_left r) (clientY e - rect_top r))
                          (rev (map the (textLayers s))) of
                  None \<Rightarrow> (s, d)
                | Some l \<Rightarrow>
                    (s\<lparr>selectedLayerId := Some (layer_id l)\<rparr>,
                     d\<lparr>dragging := Some (layer_id l),
                       dragStart := (clientX e - rect_left r - layer_x l,
                                     clientY e - rect_top r - layer_y l)\<rparr>)) \<and>
         in_bounding_box px py (l\<lparr>rotation := a\<rparr>) = in_bounding_box px py l"
  using assms
  by (simp add: handleMouseDown_def hit_loop_find Let_def in_bounding_box_def
           split: option.splits)

theorem press_hits_topmost_box_witness:
  "no_holes (textLayers overlap_state) \<and>
   in_bounding_box 100 60 (default_layer 1) \<and>
   in_bounding_box 100 60 ((default_layer 2)\<lparr>rotation := 90\<rparr>) \<and>
   handleMouseDown \<lparr>rect_left = 10, rect_top = 10\<rparr> \<lparr>clientX = 110, clientY = 70\<rparr>
       overlap_state \<lparr>dragging = None, dragStart = (0, 0)\<rparr> =
     Inr (overlap_state\<lparr>selectedLayerId := Some 2\<rparr>,
          \<lparr>dragging = Some 2, dragStart = (50, 10)\<rparr>)"
  using press_hits_topmost_box [of overlap_state "\<lparr>rect_left = 10, rect_top = 10\<rparr>"
      "\<lparr>clientX = 110, clientY = 70\<rparr>" "\<lparr>dragging = None, dragStart = (0, 0)\<rparr>"]
  by (simp add: overlap_state_def no_holes_def default_layer_def newLayer_def initialState_def
                in_bounding_box_def)

section \<open>Render and share payloads carry the style and geometry only\<close>

lemma preview_layers_no_holes:
  "no_holes ls \<Longrightarrow> \<exists>ps. preview_layers ls = Inr ps \<and> length ps = length ls \<and>
     (\<forall>k<length ls.
        out_text (ps ! k) = layer_text (the (ls ! k)) \<and>
        out_x (ps ! k) = layer_x (the (ls ! k)) \<and>
        out_y (ps ! k) = layer_y (the (ls ! k)) \<and>
        out_fontSize (ps ! k) = fontSize (the (ls ! k)) \<and>
        out_fontFamily (ps ! k) = fontFamily (the (ls ! k)) \<and>
        out_color (ps ! k) = color (the (ls ! k)) \<and>
        out_strokeColor (ps ! k) = strokeColor (the (ls ! k)) \<and>
        out_strokeWidth (ps ! k) = strokeWidth (the (ls ! k)) \<and>
        out_textAlign (ps ! k) = textAlign (the (ls ! k)) \<and>
        out_rotation (ps ! k) = rotation (the (ls ! k)))"
proof (induction ls rule: preview_layers.induct)
  case 1
  then show ?case by simp
next
  case (2 rest)
  then show ?case by (simp add: no_holes_def)
next
  case (3 layer rest)
  then obtain ps where "preview_layers rest = Inr ps" "length ps = length rest"
    and "\<forall>k<length rest.
        out_text (ps ! k) = layer_text (the (rest ! k)) \<and>
        out_x (ps ! k) = layer_x (the (rest ! k)) \<and>
        out_y (ps ! k) = layer_y (the (rest ! k)) \<and>
        out_fontSize (ps ! k) = fontSize (the (rest ! k)) \<and>
        out_fontFamily (ps ! k) = fontFamily (the (rest ! k)) \<and>
        out_color (ps ! k) = color (the (rest ! k)) \<and>
        out_strokeColor (ps ! k) = strokeColor (the (rest ! k)) \<and>
        out_strokeWidth (ps ! k) = strokeWidth (the (rest ! k)) \<and>
        out_textAlign (ps ! k) = textAlign (the (rest ! k)) \<and>
        out_rotation (ps ! k) = rotation (the (rest ! k))"
    by (auto simp: no_holes_def)
  then show ?case
    by (simp add: nth_Cons split: nat.splits)
qed

lemma share_layers_eq: "share_layers ls = preview_layers ls"
  by (induction ls rule: share_layers.induct) simp_all

lemma preview_layers_ignores:
  "preview_layers (map (map_option (\<lambda>l. l\<lparr>layer_id := f l, width := g l, height := h l\<rparr>)) ls)
     = preview_layers ls"
  by (induction ls rule: preview_layers.induct) (simp_all split: sum.splits)

text \<open>
  Claim C9: with a base image chosen, the render call and the share call get the same
  payload: one entry per layer, in order, whose ten fields \<^verbatim>\<open>text\<close>, \<^verbatim>\<open>x\<close>, \<^verbatim>\<open>y\<close>,
  \<^verbatim>\<open>fontSize\<close>, \<^verbatim>\<open>fontFamily\<close>, \<^verbatim>\<open>color\<close>, \<^verbatim>\<open>strokeColor\<close>, \<^verbatim>\<open>strokeWidth\<close>, \<^verbatim>\<open>textAlign\<close>
  and \<^verbatim>\<open>rotation\<close> are the layer's. An entry has no other field, and the payload is the
  same whatever the \<^verbatim>\<open>id\<close>, \<^verbatim>\<open>width\<close> and \<^verbatim>\<open>height\<close> of the layers are.
\<close>

theorem payload_projection:
  assumes "no_holes ls" "u \<noteq> []"
  shows "\<exists>ps. generatePreview (Some u) ls =
                Some (Inr \<lparr>data_baseImage = u, data_textLayers = ps\<rparr>) \<and>
              handleShare (Some u) ls =
                Some (Inr \<lparr>data_baseImage = u, data_textLayers = ps\<rparr>) \<and>
              length ps = length ls \<and>
              (\<forall>k<length ls.
                 out_text (ps ! k) = layer_text (the (ls ! k)) \<and>
                 out_x (ps ! k) = layer_x (the (ls ! k)) \<and>
                 out_y (ps ! k) = layer_y (the (ls ! k)) \<and>
                 out_fontSize (ps ! k) = fontSize (the (ls ! k)) \<and>
                 out_fontFamily (ps ! k) = fontFamily (the (ls ! k)) \<and>
                 out_color (ps ! k) = color (the (ls ! k)) \<and>
                 out_strokeColor (ps ! k) = strokeColor (the (ls ! k)) \<and>
                 out_strokeWidth (ps ! k) = strokeWidth (the (ls ! k)) \<and>
                 out_textAlign (ps ! k) = textAlign (the (ls ! k)) \<and>
                 out_rotation (ps ! k) = rotation (the (ls ! k))) \<and>
              generatePreview (Some u)
                (map (map_option (\<lambda>l. l\<lparr>layer_id := f l, width := g l, height := h l\<rparr>)) ls) =
                Some (Inr \<lparr>data_baseImage = u, data_textLayers = ps\<rparr>) \<and>
              handleShare (Some u)
                (map (map_option (\<lambda>l. l\<lparr>layer_id := f l, width := g l, height := h l\<rparr>)) ls) =
                Some (Inr \<lparr>data_baseImage = u, data_textLayers = ps\<rparr>)"
proof -
  from preview_layers_no_holes [OF assms(1)] obtain ps where
    ps: "preview_layers ls = Inr ps" "length ps = length ls"
    and fields: "\<forall>k<length ls.
                 out_text (ps ! k) = layer_text (the (ls ! k)) \<and>
                 out_x (ps ! k) = layer_x (the (ls ! k)) \<and>
                 out_y (ps ! k) = layer_y (the (ls ! k)) \<and>
                 out_fontSize (ps ! k) = fontSize (the (ls ! k)) \<and>
                 out_fontFamily (ps ! k) = fontFamily (the (ls ! k)) \<and>
                 out_color (ps ! k) = color (the (ls ! k)) \<and>
                 out_strokeColor (ps ! k) = strokeColor (the (ls ! k)) \<and>
                 out_strokeWidth (ps ! k) = strokeWidth (the (ls ! k)) \<and>
                 out_textAlign (ps ! k) = textAlign (the (ls ! k)) \<and>
                 out_rotation (ps ! k) = rotation (the (ls ! k))"
    by blast
  have "generatePreview (Some u) ls = Some (Inr \<lparr>data_baseImage = u, data_textLayers = ps\<rparr>)"
    using ps assms(2) by (simp add: generatePreview_def)
  moreover have
    "handleShare (Some u) ls = Some (Inr \<lparr>data_baseImage = u, data_textLayers = ps\<rparr>)"
    using ps assms(2) by (simp add: handleShare_def share_layers_eq)
  moreover have
    "generatePreview (Some u)
       (map (map_option (\<lambda>l. l\<lparr>layer_id := f l, width := g l, height := h l\<rparr>)) ls) =
     Some (Inr \<lparr>data_baseImage = u, data_textLayers = ps\<rparr>)"
    using ps assms(2) by (simp add: generatePreview_def preview_layers_ignores)
  moreover have
    "handleShare (Some u)
       (map (map_option (\<lambda>l. l\<lparr>layer_id := f l, width := g l, height := h l\<rparr>)) ls) =
     Some (Inr \<lparr>data_baseImage = u, data_textLayers = ps\<rparr>)"
    using ps assms(2) by (simp add: handleShare_def share_layers_eq preview_layers_ignores)
  ultimately show ?thesis using ps(2) fields by blast
qed

theorem payload_projection_witness:
  "no_holes (textLayers one_layer_state) \<and> ''img1'' \<noteq> [] \<and>
   generatePreview (baseImage one_layer_state) (textLayers one_layer_state) =
     Some (Inr \<lparr>data_baseImage = ''img1'',
                data_textLayers =
                  [\<lparr>out_text = ''Double click to edit'', out_x = 50, out_y = 50,
                    out_fontSize = 48, out_fontFamily = ''Impact, Arial Black, sans-serif'',
                    out_color = ''#FFFFFF'', out_strokeColor = ''#000000'',
                    out_strokeWidth = 2, out_textAlign = ''center'', out_rotation = 0\<rparr>]\<rparr>) \<and>
   handleShare (baseImage one_layer_state) (textLayers one_layer_state) =
     generatePreview (baseImage one_layer_state) (textLayers one_layer_state)"
  using payload_projection [of "textLayers one_layer_state" "''img1''"]
  by (simp add: one_layer_state_def no_holes_def generatePreview_def handleShare_def
                newLayer_def initialState_def)

end
